theory Spec2Isabelle
  imports Complex_Main
begin

section \<open>Inventory projection service: the embedding\<close>

text \<open>
  The definitions below embed the class \<^verbatim>\<open>InventoryProjectionService\<close>.
  Conventions of the embedding:
  \<^item> a JavaScript \<^verbatim>\<open>number\<close> is a \<^typ>\<open>real\<close> (rounding, NaN and the infinities of
    IEEE doubles are not modelled); a nullable number is a \<^typ>\<open>real option\<close>;
  \<^item> a \<^verbatim>\<open>Date\<close> is an \<open>instant\<close>: the milliseconds since the epoch that
    \<^verbatim>\<open>getTime()\<close> returns; the process runs in UTC, so local and UTC calendar fields agree
    and a local day has 86400000 ms;
  \<^item> a calendar-date string \<^verbatim>\<open>YYYY-MM-DD\<close> is an \<open>isodate\<close>: the number of days
    from 1970-01-01 to that date, so equality of the strings is equality of the numbers;
  \<^item> the clock reading \<^verbatim>\<open>new Date()\<close> is the parameter \<open>startDate\<close>.
\<close>

subsection \<open>Numbers and dates of the platform\<close>

type_synonym instant = int
type_synonym isodate = int

definition msPerDay :: int where
  "msPerDay = 86400000"

text \<open>\<^verbatim>\<open>d.toISOString().split('T')[0]\<close>: the UTC calendar date of an instant.\<close>

definition toISODate :: "instant \<Rightarrow> isodate" where
  "toISODate t = t div msPerDay"

text \<open>\<^verbatim>\<open>new Date(s).getTime()\<close> for a date-only string: midnight UTC of that date.\<close>

definition parseDate :: "isodate \<Rightarrow> instant" where
  "parseDate s = s * msPerDay"

text \<open>\<^verbatim>\<open>c = new Date(t); c.setDate(t.getDate() + day)\<close>: the same time of day,
  \<open>day\<close> days later.\<close>

definition addDays :: "instant \<Rightarrow> int \<Rightarrow> instant" where
  "addDays t day = t + day * msPerDay"

text \<open>The month (1 to 12) of the proleptic Gregorian date that lies \<open>z\<close> days after
  1970-01-01, computed era by era (400 years = 146097 days, years starting in March).\<close>

definition civil_month :: "isodate \<Rightarrow> int" where
  "civil_month z =
     (let z' = z + 719468;
          era = z' div 146097;
          doe = z' - era * 146097;
          yoe = (doe - doe div 1460 + doe div 36524 - doe div 146096) div 365;
          doy = doe - (365 * yoe + yoe div 4 - yoe div 100);
          mp = (5 * doy + 2) div 153
      in if mp < 10 then mp + 3 else mp - 9)"

text \<open>\<^verbatim>\<open>date.getMonth()\<close>: the month counted from 0.\<close>

definition getMonth :: "instant \<Rightarrow> int" where
  "getMonth t = civil_month (toISODate t) - 1"

text \<open>\<^verbatim>\<open>x || d\<close> on a nullable number: \<open>d\<close> when \<open>x\<close> is null or 0.\<close>

definition or_num :: "real option \<Rightarrow> real \<Rightarrow> real" where
  "or_num x d = (case x of None \<Rightarrow> d | Some v \<Rightarrow> if v = 0 then d else v)"

text \<open>The truthiness of a nullable number, as a condition reads it.\<close>

definition truthy :: "real option \<Rightarrow> bool" where
  "truthy x = (case x of None \<Rightarrow> False | Some v \<Rightarrow> v \<noteq> 0)"

subsection \<open>Data\<close>

record ForecastData =
  product_id :: string
  location_id :: string
  postdate :: isodate
  forecast :: "real option"
  actual :: "real option"

datatype Status = Optimal | Warning | Critical | Stockout

record InventoryProjection =
  date :: isodate
  projected_inventory :: real
  forecast_demand :: real
  current_stock :: real
  cumulative_demand :: real
  reorder_point :: real
  safety_stock :: real
  status :: Status

text \<open>A row of \<^verbatim>\<open>inventory_series\<close> and a row of \<^verbatim>\<open>inventory_series_data\<close>
  (of the latter only the fields the service reads).\<close>

record InventorySeries =
  s_id :: string
  s_product_id :: string
  s_location_id :: string

record InventoryDatum =
  series_id :: string
  item_value :: "real option"

record ProjectionParams =
  p_product_id :: "string option"
  p_location_id :: "string option"
  p_warehouse_id :: "int option"
  projection_days :: "int option"

record SeriesProjections =
  r_product_id :: string
  r_location_id :: string
  r_warehouse_id :: int
  r_projections :: "InventoryProjection list"

record ProjectionSummary =
  stockoutDays :: nat
  criticalDays :: nat
  warningDays :: nat
  minInventory :: real
  totalDemand :: real
  riskLevel :: string

text \<open>What a query of the database client resolves to: \<^verbatim>\<open>{ data, error }\<close>.\<close>

datatype db_error = DbError string

record 'a query_result =
  data :: "'a list option"
  error :: "db_error option"

subsection \<open>getDailyDemand\<close>

text \<open>The callback of \<^verbatim>\<open>reduce\<close>: the current element replaces \<open>prev\<close> only when
  it is strictly closer.\<close>

definition closer :: "instant \<Rightarrow> ForecastData \<Rightarrow> ForecastData \<Rightarrow> ForecastData" where
  "closer date_t prev curr' =
     (let prevDiff = \<bar>parseDate (postdate prev) - date_t\<bar>;
          currDiff = \<bar>parseDate (postdate curr') - date_t\<bar>
      in if currDiff < prevDiff then curr' else prev)"

text \<open>In the branch that returns \<^verbatim>\<open>exactMatch.forecast\<close> the test has established that
  the match and its forecast exist, so \<open>the\<close> is applied to \<open>Some\<close> values only.\<close>

definition getDailyDemand :: "ForecastData list \<Rightarrow> instant \<Rightarrow> real" where
  "getDailyDemand forecasts date_t =
     (if length forecasts = 0 then 0
      else
        let dateStr = toISODate date_t;
            exactMatch = find (\<lambda>f. postdate f = dateStr) forecasts
        in if (case exactMatch of None \<Rightarrow> False | Some m \<Rightarrow> truthy (forecast m))
           then the (forecast (the exactMatch))
           else
             let sortedForecasts =
                   sort_key (\<lambda>f. parseDate (postdate f))
                     (filter (\<lambda>f. forecast f \<noteq> None) forecasts)
             in (case sortedForecasts of
                   [] \<Rightarrow> 0
                 | first # rest \<Rightarrow> or_num (forecast (foldl (closer date_t) first rest)) 0))"

subsection \<open>calculateEnhancedSafetyStock\<close>

definition calculateEnhancedSafetyStock :: "ForecastData list \<Rightarrow> real" where
  "calculateEnhancedSafetyStock forecasts =
     (if length forecasts = 0 then 10
      else
        let demands = map (\<lambda>f. or_num (forecast f) 0) forecasts;
            avgDemand = foldl (\<lambda>sum d. sum + d) 0 demands / real (length demands);
            variance = foldl (\<lambda>sum d. sum + (d - avgDemand) ^ 2) 0 demands / real (length demands);
            stdDev = sqrt variance;
            leadTime = 14;
            serviceLevel = 1.65;
            enhancedSafetyStock = serviceLevel * stdDev * sqrt (leadTime / 7)
        in max enhancedSafetyStock 10)"

subsection \<open>getSeasonalAdjustment\<close>

definition seasonalFactors :: "int \<rightharpoonup> real" where
  "seasonalFactors =
     map_of [(1, 0.9), (2, 0.95), (3, 1.0), (4, 1.05), (5, 1.1), (6, 1.15),
             (7, 1.2), (8, 1.15), (9, 1.05), (10, 1.1), (11, 1.25), (12, 1.3)]"

definition getSeasonalAdjustment :: "instant \<Rightarrow> real" where
  "getSeasonalAdjustment date_t =
     (let month = getMonth date_t + 1 in or_num (seasonalFactors month) 1.0)"

subsection \<open>determineEnhancedInventoryStatus\<close>

definition determineEnhancedInventoryStatus :: "real \<Rightarrow> real \<Rightarrow> real \<Rightarrow> Status" where
  "determineEnhancedInventoryStatus projectedInventory enhancedSafetyStock reorderPoint =
     (if projectedInventory \<le> 0 then Stockout
      else if projectedInventory \<le> enhancedSafetyStock * 0.5 then Critical
      else if projectedInventory \<le> enhancedSafetyStock then Warning
      else Optimal)"

subsection \<open>calculateInventoryTimeline\<close>

text \<open>
  The day loop, with its mutable variables as arguments: the counter \<open>day\<close>,
  \<open>runningInventory\<close> (assigned at the end of every iteration, never read),
  \<open>cumulativeDemand\<close> and the output array \<open>projections\<close>.
\<close>

function timeline_loop ::
  "instant \<Rightarrow> ForecastData list \<Rightarrow> int \<Rightarrow> real \<Rightarrow> real \<Rightarrow>
   int \<Rightarrow> real \<Rightarrow> real \<Rightarrow> InventoryProjection list \<Rightarrow> InventoryProjection list" where
  "timeline_loop startDate forecasts projectionDays currentInventory enhancedSafetyStock
       day runningInventory cumulativeDemand projections =
     (if day \<le> projectionDays then
        (let currentDate = addDays startDate day;
             dateStr = toISODate currentDate;
             baseDailyDemand = getDailyDemand forecasts currentDate;
             seasonalAdjustment = getSeasonalAdjustment currentDate;
             adjustedDemand = baseDailyDemand * seasonalAdjustment;
             cumulativeDemand' = cumulativeDemand + adjustedDemand;
             projectedInventory = currentInventory - cumulativeDemand';
             reorderPoint = enhancedSafetyStock * 1.5;
             projectedInventory' =
               (if projectedInventory \<le> reorderPoint \<and> day > 0 then
                  (let maxCapacity = currentInventory * 2;
                       replenishmentQuantity = maxCapacity - projectedInventory
                   in if replenishmentQuantity > 0
                      then projectedInventory + replenishmentQuantity
                      else projectedInventory)
                else projectedInventory);
             status_d = determineEnhancedInventoryStatus
                          projectedInventory' enhancedSafetyStock reorderPoint
         in timeline_loop startDate forecasts projectionDays currentInventory enhancedSafetyStock
              (day + 1) projectedInventory' cumulativeDemand'
              (projections @
                 [\<lparr>date = dateStr,
                   projected_inventory = max 0 projectedInventory',
                   forecast_demand = adjustedDemand,
                   current_stock = currentInventory,
                   cumulative_demand = cumulativeDemand',
                   reorder_point = reorderPoint,
                   safety_stock = enhancedSafetyStock,
                   status = status_d\<rparr>]))
      else projections)"
  by pat_completeness auto
termination
  by (relation "measure (\<lambda>(s, f, projectionDays, c, e, day, r, cd, ps).
                   nat (projectionDays + 1 - day))") auto

definition calculateInventoryTimeline ::
  "instant \<Rightarrow> InventorySeries \<Rightarrow> InventoryDatum list \<Rightarrow> ForecastData list \<Rightarrow> int \<Rightarrow>
   InventoryProjection list" where
  "calculateInventoryTimeline startDate series inventoryData forecasts projectionDays =
     (let currentInventory = foldl (\<lambda>sum item. sum + or_num (item_value item) 0) 0 inventoryData;
          runningInventory = currentInventory;
          cumulativeDemand = 0;
          enhancedSafetyStock = calculateEnhancedSafetyStock forecasts
      in timeline_loop startDate forecasts projectionDays currentInventory enhancedSafetyStock
           0 runningInventory cumulativeDemand [])"

subsection \<open>calculateProjections\<close>

text \<open>
  The three queries are answered by the database; the function is modelled from their
  results on. A query error is rethrown (\<open>Inl\<close>).
\<close>

definition calculateProjections ::
  "instant \<Rightarrow> InventorySeries query_result \<Rightarrow> InventoryDatum query_result \<Rightarrow>
   ForecastData query_result \<Rightarrow> ProjectionParams \<Rightarrow> db_error + SeriesProjections list" where
  "calculateProjections startDate seriesQuery inventoryDataQuery forecastQuery params =
     (case error seriesQuery of
        Some inventoryError \<Rightarrow> Inl inventoryError
      | None \<Rightarrow>
          (case data seriesQuery of
             None \<Rightarrow> Inr []
           | Some inventorySeries \<Rightarrow>
               if length inventorySeries = 0 then Inr []
               else
                 (case error inventoryDataQuery of
                    Some inventoryDataError \<Rightarrow> Inl inventoryDataError
                  | None \<Rightarrow>
                      (case error forecastQuery of
                         Some forecastError \<Rightarrow> Inl forecastError
                       | None \<Rightarrow>
                           Inr (map (\<lambda>series.
                                  let relevantInventoryData =
                                        (case data inventoryDataQuery of
                                           None \<Rightarrow> []
                                         | Some inventoryData \<Rightarrow>
                                             filter (\<lambda>inv. series_id inv = s_id series)
                                               inventoryData);
                                      relevantForecasts =
                                        (case data forecastQuery of
                                           None \<Rightarrow> []
                                         | Some forecastData \<Rightarrow>
                                             filter (\<lambda>f. product_id f = s_product_id series \<and>
                                                          location_id f = s_location_id series)
                                               forecastData);
                                      projections_s =
                                        calculateInventoryTimeline startDate series
                                          relevantInventoryData relevantForecasts
                                          (case projection_days params of
                                             None \<Rightarrow> 90
                                           | Some n \<Rightarrow> if n = 0 then 90 else n)
                                  in \<lparr>r_product_id = s_product_id series,
                                      r_location_id = s_location_id series,
                                      r_warehouse_id = 1,
                                      r_projections = projections_s\<rparr>)
                                inventorySeries)))))"

subsection \<open>getProjectionSummary\<close>

definition getProjectionSummary :: "InventoryProjection list \<Rightarrow> ProjectionSummary option" where
  "getProjectionSummary ps =
     (case ps of
        [] \<Rightarrow> None
      | p # rest \<Rightarrow>
          (let stockoutDays_n = length (filter (\<lambda>p. status p = Stockout) ps);
               criticalDays_n = length (filter (\<lambda>p. status p = Critical) ps);
               warningDays_n = length (filter (\<lambda>p. status p = Warning) ps);
               minInventory_v = fold min (map projected_inventory rest) (projected_inventory p);
               totalDemand_v = or_num (Some (cumulative_demand (last ps))) 0
           in Some \<lparr>stockoutDays = stockoutDays_n,
                     criticalDays = criticalDays_n,
                     warningDays = warningDays_n,
                     minInventory = minInventory_v,
                     totalDemand = totalDemand_v,
                     riskLevel = (if stockoutDays_n > 0 then ''high''
                                  else if criticalDays_n > 7 then ''medium'' else ''low'')\<rparr>))"

subsection \<open>The quantities the properties are stated with\<close>

text \<open>The seasonally adjusted demand of day \<open>d\<close>, and its running total from day 0.\<close>

definition adjustedDemand_on :: "instant \<Rightarrow> ForecastData list \<Rightarrow> int \<Rightarrow> real" where
  "adjustedDemand_on startDate forecasts d =
     getDailyDemand forecasts (addDays startDate d) * getSeasonalAdjustment (addDays startDate d)"

definition demand_through :: "instant \<Rightarrow> ForecastData list \<Rightarrow> int \<Rightarrow> real" where
  "demand_through startDate forecasts d =
     sum_list (map (adjustedDemand_on startDate forecasts) [0..d])"

text \<open>The baseline as the specification words it: the sum of all observation values,
  a null value counting as 0.\<close>

definition baseline_inventory :: "InventoryDatum list \<Rightarrow> real" where
  "baseline_inventory inventoryData =
     sum_list (map (\<lambda>item. case item_value item of None \<Rightarrow> 0 | Some v \<Rightarrow> v) inventoryData)"

text \<open>The replenishment rule as the specification words it: on a day \<open>d > 0\<close> whose
  value \<open>v\<close> is at most the reorder point, \<open>max 0 (2 * baseline - v)\<close> is added.\<close>

definition replenished :: "real \<Rightarrow> real \<Rightarrow> int \<Rightarrow> real \<Rightarrow> real" where
  "replenished baseline reorderPoint d v =
     (if d > 0 \<and> v \<le> reorderPoint then v + max 0 (2 * baseline - v) else v)"

text \<open>The record one iteration pushes, as a function of the day and of the cumulative
  demand through that day.\<close>

definition day_entry ::
  "instant \<Rightarrow> real \<Rightarrow> real \<Rightarrow> real \<Rightarrow> real \<Rightarrow> int \<Rightarrow> InventoryProjection" where
  "day_entry startDate currentInventory enhancedSafetyStock adjusted cumulative d =
     (let post = replenished currentInventory (enhancedSafetyStock * 1.5) d
                   (currentInventory - cumulative)
      in \<lparr>date = toISODate (addDays startDate d),
          projected_inventory = max 0 post,
          forecast_demand = adjusted,
          current_stock = currentInventory,
          cumulative_demand = cumulative,
          reorder_point = enhancedSafetyStock * 1.5,
          safety_stock = enhancedSafetyStock,
          status = determineEnhancedInventoryStatus post enhancedSafetyStock
                     (enhancedSafetyStock * 1.5)\<rparr>)"

text \<open>The statistics of the safety stock as the specification words them: the forecast
  values with null counting as 0, their mean, and their population standard deviation.\<close>

definition forecast_values :: "ForecastData list \<Rightarrow> real list" where
  "forecast_values forecasts = map (\<lambda>f. case forecast f of None \<Rightarrow> 0 | Some v \<Rightarrow> v) forecasts"

definition sample_mean :: "real list \<Rightarrow> real" where
  "sample_mean xs = sum_list xs / real (length xs)"

definition population_stddev :: "real list \<Rightarrow> real" where
  "population_stddev xs = sqrt (sum_list (map (\<lambda>x. (x - sample_mean xs) ^ 2) xs) / real (length xs))"

text \<open>The horizon \<^verbatim>\<open>params.projection_days || 90\<close> that \<open>calculateProjections\<close> hands to
  \<open>calculateInventoryTimeline\<close>.\<close>

definition horizon_of :: "ProjectionParams \<Rightarrow> int" where
  "horizon_of params = (case projection_days params of None \<Rightarrow> 90 | Some n \<Rightarrow> if n = 0 then 90 else n)"

text \<open>The base demand in words. The distance in time between a forecast point
  (midnight UTC of its date) and an instant:\<close>

definition time_distance :: "instant \<Rightarrow> ForecastData \<Rightarrow> int" where
  "time_distance t f = \<bar>parseDate (postdate f) - t\<bar>"

text \<open>the first point of a list, in the order of the list, that no point of the list
  beats in distance:\<close>

definition first_closest :: "instant \<Rightarrow> ForecastData list \<Rightarrow> ForecastData option" where
  "first_closest t xs = find (\<lambda>f. \<forall>g \<in> set xs. time_distance t f \<le> time_distance t g) xs"

text \<open>the demand of the nearest point: among the points with a non-null forecast, taken in
  the order of their dates (points of one date in the order of the input), the forecast of
  the first closest one, and 0 when there is none:\<close>

definition nearest_demand :: "ForecastData list \<Rightarrow> instant \<Rightarrow> real" where
  "nearest_demand forecasts t =
     (case first_closest t (sort_key postdate (filter (\<lambda>f. forecast f \<noteq> None) forecasts)) of
        None \<Rightarrow> 0
      | Some c \<Rightarrow> (case forecast c of None \<Rightarrow> 0 | Some v \<Rightarrow> v))"

text \<open>and the base demand of an instant: the forecast of the first point dated on the
  instant's calendar date when that forecast is not null, the demand of the nearest point
  otherwise.\<close>

definition base_demand :: "ForecastData list \<Rightarrow> instant \<Rightarrow> real" where
  "base_demand forecasts t =
     (case find (\<lambda>f. postdate f = toISODate t) forecasts of
        None \<Rightarrow> nearest_demand forecasts t
      | Some m \<Rightarrow> (case forecast m of None \<Rightarrow> nearest_demand forecasts t | Some v \<Rightarrow> v))"

text \<open>The base demand as the specification words it: the forecast value (null counting as
  0) of the point that matches the date when one exists, otherwise that of the first closest
  point of the sequence, and 0 for the empty sequence.\<close>

definition claimed_base_demand :: "ForecastData list \<Rightarrow> instant \<Rightarrow> real" where
  "claimed_base_demand forecasts t =
     (case find (\<lambda>f. postdate f = toISODate t) forecasts of
        Some m \<Rightarrow> (case forecast m of None \<Rightarrow> 0 | Some v \<Rightarrow> v)
      | None \<Rightarrow>
          (case first_closest t forecasts of
             None \<Rightarrow> 0
           | Some c \<Rightarrow> (case forecast c of None \<Rightarrow> 0 | Some v \<Rightarrow> v)))"

text \<open>The seasonal factor of a month: the entry of the table, 1 for a key without entry.\<close>

definition seasonal_factor :: "int \<Rightarrow> real" where
  "seasonal_factor month = (case seasonalFactors month of None \<Rightarrow> 1 | Some v \<Rightarrow> v)"

subsection \<open>Example inputs\<close>

definition obs :: "real option \<Rightarrow> InventoryDatum" where
  "obs v = \<lparr>series_id = ''s1'', item_value = v\<rparr>"

definition fc :: "isodate \<Rightarrow> real option \<Rightarrow> ForecastData" where
  "fc d v = \<lparr>product_id = ''p1'', location_id = ''l1'', postdate = d, forecast = v, actual = None\<rparr>"

text \<open>Midnight UTC of 1970-03-01 (day 59).\<close>

definition march1 :: instant where
  "march1 = 59 * 86400000"

definition stock100 :: "InventoryDatum list" where
  "stock100 = [obs (Some 100), obs None]"

definition demand50 :: "ForecastData list" where
  "demand50 = [fc 59 (Some 50), fc 60 (Some 50)]"

definition series0 :: InventorySeries where
  "series0 = \<lparr>s_id = ''s1'', s_product_id = ''p1'', s_location_id = ''l1''\<rparr>"

text \<open>A day of a projection with status \<open>Optimal\<close>.\<close>

definition optimal_day :: "real \<Rightarrow> real \<Rightarrow> InventoryProjection" where
  "optimal_day stock cum =
     \<lparr>date = 0, projected_inventory = stock, forecast_demand = 1, current_stock = 100,
      cumulative_demand = cum, reorder_point = 15, safety_stock = 10, status = Optimal\<rparr>"

text \<open>A forecast series with a negative value.\<close>

definition negative_forecast :: "ForecastData list" where
  "negative_forecast = [fc 0 (Some (- 5))]"

text \<open>A forecast series with a null value and a positive standard deviation.\<close>

definition demand_10_30 :: "ForecastData list" where
  "demand_10_30 = [fc 59 (Some 10), fc 60 None, fc 61 (Some 30), fc 62 (Some 40)]"

text \<open>Query results: no rows; the one series \<open>series0\<close>. Parameters asking for one day.\<close>

definition no_rows :: "'a query_result" where
  "no_rows = \<lparr>data = Some [], error = None\<rparr>"

definition one_series :: "InventorySeries query_result" where
  "one_series = \<lparr>data = Some [series0], error = None\<rparr>"

definition one_day :: ProjectionParams where
  "one_day = \<lparr>p_product_id = None, p_location_id = None, p_warehouse_id = None,
               projection_days = Some 1\<rparr>"

text \<open>A forecast series whose point for day 59 has no forecast value.\<close>

definition null_day :: "ForecastData list" where
  "null_day = [fc 59 None, fc 60 (Some 5)]"

text \<open>A forecast series whose point for day 59 has the forecast 0, and 18:00 UTC of that
  day.\<close>

definition zero_day :: "ForecastData list" where
  "zero_day = [fc 59 (Some 0), fc 60 (Some 5)]"

definition march1_evening :: instant where
  "march1_evening = 59 * 86400000 + 64800000"

section \<open>The loop in closed form\<close>

lemma timeline_loop_step:
  assumes "day \<le> projectionDays"
  shows "timeline_loop startDate forecasts projectionDays currentInventory enhancedSafetyStock
           day runningInventory cumulativeDemand projections =
         timeline_loop startDate forecasts projectionDays currentInventory enhancedSafetyStock
           (day + 1)
           (replenished currentInventory (enhancedSafetyStock * 1.5) day
              (currentInventory - (cumulativeDemand + adjustedDemand_on startDate forecasts day)))
           (cumulativeDemand + adjustedDemand_on startDate forecasts day)
           (projections @
              [day_entry startDate currentInventory enhancedSafetyStock
                 (adjustedDemand_on startDate forecasts day)
                 (cumulativeDemand + adjustedDemand_on startDate forecasts day) day])"
proof -
  have r: "replenished currentInventory (enhancedSafetyStock * 1.5) day v =
        (if v \<le> enhancedSafetyStock * 1.5 \<and> day > 0 then
           (if currentInventory * 2 - v > 0 then v + (currentInventory * 2 - v) else v)
         else v)" for v
    by (simp add: replenished_def max_def)
  show ?thesis
    using assms
    by (subst timeline_loop.simps)
       (simp only: r Let_def day_entry_def adjustedDemand_on_def if_True)
qed


lemma timeline_loop_stop:
  assumes "\<not> day \<le> projectionDays"
  shows "timeline_loop startDate forecasts projectionDays currentInventory enhancedSafetyStock
           day runningInventory cumulativeDemand projections = projections"
  using assms by (subst timeline_loop.simps) simp

lemma timeline_loop_closed:
  "timeline_loop startDate forecasts projectionDays currentInventory enhancedSafetyStock
     day runningInventory cumulativeDemand projections =
   projections @
     map (\<lambda>d. day_entry startDate currentInventory enhancedSafetyStock
                 (adjustedDemand_on startDate forecasts d)
                 (cumulativeDemand +
                    sum_list (map (adjustedDemand_on startDate forecasts) [day..d])) d)
       [day..projectionDays]"
proof (induction "nat (projectionDays + 1 - day)"
         arbitrary: day runningInventory cumulativeDemand projections)
  case 0
  then have "\<not> day \<le> projectionDays" by simp
  then show ?case by (simp add: timeline_loop_stop)
next
  case (Suc n)
  then have le: "day \<le> projectionDays" by simp
  have n: "n = nat (projectionDays + 1 - (day + 1))" using Suc.hyps(2) by simp
  let ?adj = "adjustedDemand_on startDate forecasts"
  let ?entry = "\<lambda>c d. day_entry startDate currentInventory enhancedSafetyStock (?adj d) c d"
  have tail: "sum_list (map ?adj [day..d]) = ?adj day + sum_list (map ?adj [day + 1..d])"
    if "d \<in> set [day + 1..projectionDays]" for d
  proof -
    from that have "day \<le> d" by simp
    then have "[day..d] = day # [day + 1..d]" by (rule upto_rec1)
    then show ?thesis by simp
  qed
  have "map (\<lambda>d. ?entry (cumulativeDemand + sum_list (map ?adj [day..d])) d)
                 [day + 1..projectionDays] =
               map (\<lambda>d. ?entry (cumulativeDemand + ?adj day + sum_list (map ?adj [day + 1..d])) d)
                 [day + 1..projectionDays]"
    by (rule map_cong [OF refl]) (simp only: tail add.assoc)
  moreover have "[day..projectionDays] = day # [day + 1..projectionDays]"
    using le by (rule upto_rec1)
  ultimately have split: "map (\<lambda>d. ?entry (cumulativeDemand + sum_list (map ?adj [day..d])) d)
                 [day..projectionDays] =
               ?entry (cumulativeDemand + ?adj day) day #
               map (\<lambda>d. ?entry (cumulativeDemand + ?adj day + sum_list (map ?adj [day + 1..d])) d)
                 [day + 1..projectionDays]"
    by simp
  show ?case
    unfolding timeline_loop_step [OF le] Suc.hyps(1) [OF n] split by simp
qed


lemma foldl_add_sum_list:
  "foldl (\<lambda>sum x. sum + g x) a xs = a + sum_list (map g xs)" for a :: real
  by (induction xs arbitrary: a) (simp_all add: add.assoc)

lemma or_num_zero: "or_num x 0 = (case x of None \<Rightarrow> 0 | Some v \<Rightarrow> v)"
  by (simp add: or_num_def split: option.splits)

lemma currentInventory_baseline:
  "foldl (\<lambda>sum item. sum + or_num (item_value item) 0) 0 inventoryData =
   baseline_inventory inventoryData"
  by (simp add: foldl_add_sum_list baseline_inventory_def or_num_zero)

lemma calculateInventoryTimeline_closed:
  "calculateInventoryTimeline startDate series inventoryData forecasts projectionDays =
   map (\<lambda>d. day_entry startDate (baseline_inventory inventoryData)
               (calculateEnhancedSafetyStock forecasts)
               (adjustedDemand_on startDate forecasts d)
               (demand_through startDate forecasts d) d)
     [0..projectionDays]"
  unfolding calculateInventoryTimeline_def Let_def timeline_loop_closed
    currentInventory_baseline demand_through_def
  by simp

lemma length_timeline:
  "length (calculateInventoryTimeline startDate series inventoryData forecasts projectionDays) =
   nat (projectionDays + 1)"
  by (simp add: calculateInventoryTimeline_closed)

lemma nth_timeline:
  assumes "0 \<le> d" "d \<le> projectionDays"
  shows "calculateInventoryTimeline startDate series inventoryData forecasts projectionDays ! nat d =
         day_entry startDate (baseline_inventory inventoryData)
           (calculateEnhancedSafetyStock forecasts)
           (adjustedDemand_on startDate forecasts d)
           (demand_through startDate forecasts d) d"
proof -
  have "nat d < length [0..projectionDays]" using assms by simp
  moreover have "[0..projectionDays] ! nat d = d" using assms by simp
  ultimately show ?thesis
    by (simp only: calculateInventoryTimeline_closed nth_map)
qed

lemma calculateEnhancedSafetyStock_Nil: "calculateEnhancedSafetyStock [] = 10"
  by (simp add: calculateEnhancedSafetyStock_def)

lemma getDailyDemand_Nil: "getDailyDemand [] t = 0"
  by (simp add: getDailyDemand_def)

section \<open>Length of the projection\<close>

text \<open>
  Claim C7. For every horizon \<open>projectionDays \<ge> 0\<close> the projection has exactly
  \<open>projectionDays + 1\<close> entries, dated day 0 (today) through day \<open>projectionDays\<close>;
  with a horizon of 0 it is the single entry of day 0.
\<close>

theorem horizon_length:
  "(0 \<le> projectionDays \<longrightarrow>
      length (calculateInventoryTimeline startDate series inventoryData forecasts projectionDays) =
        nat projectionDays + 1 \<and>
      map date (calculateInventoryTimeline startDate series inventoryData forecasts projectionDays) =
        map (\<lambda>d. toISODate (addDays startDate d)) [0..projectionDays]) \<and>
   map date (calculateInventoryTimeline startDate series inventoryData forecasts 0) =
     [toISODate startDate]"
  by (simp add: calculateInventoryTimeline_closed day_entry_def Let_def addDays_def nat_add_distrib)

theorem horizon_length_witness:
  "length (calculateInventoryTimeline 0 series0 [] [] 2) = 3 \<and>
   map date (calculateInventoryTimeline 0 series0 [] [] 2) = [0, 1, 2]"
  using horizon_length [of 2 0 series0 "[]" "[]"]
  by (simp add: toISODate_def addDays_def msPerDay_def upto.simps)

section \<open>Fields that are constant over a projection\<close>

text \<open>
  Claim C9. On every day of one projection, \<open>safety_stock\<close> is the safety stock computed
  once from the forecasts, \<open>reorder_point\<close> is that safety stock times 1.5, and
  \<open>current_stock\<close> is the baseline inventory; so the three fields are the same on all days.
\<close>

theorem constant_fields:
  "\<forall>p \<in> set (calculateInventoryTimeline startDate series inventoryData forecasts projectionDays).
     safety_stock p = calculateEnhancedSafetyStock forecasts \<and>
     reorder_point p = safety_stock p * 1.5 \<and>
     current_stock p = baseline_inventory inventoryData"
  by (simp add: calculateInventoryTimeline_closed day_entry_def Let_def)

theorem constant_fields_witness:
  "safety_stock (calculateInventoryTimeline 0 series0 [] [] 1 ! 1) = 10 \<and>
   reorder_point (calculateInventoryTimeline 0 series0 [] [] 1 ! 1) = 15 \<and>
   current_stock (calculateInventoryTimeline 0 series0 [] [] 1 ! 1) = 0"
proof -
  have "calculateInventoryTimeline 0 series0 [] [] 1 ! 1 \<in>
        set (calculateInventoryTimeline 0 series0 [] [] 1)"
    by (rule nth_mem) (simp add: length_timeline)
  from bspec [OF constant_fields [of 0 series0 "[]" "[]" 1] this] show ?thesis
    by (simp add: calculateEnhancedSafetyStock_Nil baseline_inventory_def)
qed

section \<open>The summary of a projection\<close>

lemma fold_min_Min:
  "fold min xs (x :: real) = Min (set (x # xs))"
proof (induction xs arbitrary: x)
  case Nil
  show ?case by simp
next
  case (Cons y ys)
  have "fold min (y # ys) x = fold min ys (min y x)" by simp
  also have "\<dots> = Min (set (min y x # ys))" by (rule Cons.IH)
  also have "\<dots> = Min (set (x # y # ys))"
    by (cases ys) (simp_all add: min.commute min.left_commute min.assoc)
  finally show ?case .
qed

lemma or_num_Some_zero: "or_num (Some v) 0 = v"
  by (simp add: or_num_def)

lemma getProjectionSummary_Cons:
  "getProjectionSummary (p # rest) =
     Some \<lparr>stockoutDays = length (filter (\<lambda>p. status p = Stockout) (p # rest)),
           criticalDays = length (filter (\<lambda>p. status p = Critical) (p # rest)),
           warningDays = length (filter (\<lambda>p. status p = Warning) (p # rest)),
           minInventory = fold min (map projected_inventory rest) (projected_inventory p),
           totalDemand = cumulative_demand (last (p # rest)),
           riskLevel = (if length (filter (\<lambda>p. status p = Stockout) (p # rest)) > 0 then ''high''
                        else if length (filter (\<lambda>p. status p = Critical) (p # rest)) > 7
                             then ''medium'' else ''low'')\<rparr>"
  by (simp only: getProjectionSummary_def list.case Let_def or_num_Some_zero)

text \<open>
  Claim C6. For every non-empty projection, \<open>getProjectionSummary\<close> returns a summary
  holding the number of days with status stockout, with status critical and with status
  warning, the minimum of the emitted (clamped) \<open>projected_inventory\<close> values, the
  \<open>cumulative_demand\<close> of the last day as total demand, and the risk level: high when the
  stockout count is positive, else medium when the critical count exceeds 7, else low.
  When every day is optimal the three counts are 0 and the risk level is low.
\<close>

theorem summary_nonempty:
  assumes "ps \<noteq> []"
  shows "\<exists>s. getProjectionSummary ps = Some s \<and>
           stockoutDays s = card {i. i < length ps \<and> status (ps ! i) = Stockout} \<and>
           criticalDays s = card {i. i < length ps \<and> status (ps ! i) = Critical} \<and>
           warningDays s = card {i. i < length ps \<and> status (ps ! i) = Warning} \<and>
           minInventory s = Min (projected_inventory ` set ps) \<and>
           totalDemand s = cumulative_demand (last ps) \<and>
           riskLevel s = (if stockoutDays s > 0 then ''high''
                          else if criticalDays s > 7 then ''medium'' else ''low'') \<and>
           ((\<forall>p \<in> set ps. status p = Optimal) \<longrightarrow>
              stockoutDays s = 0 \<and> criticalDays s = 0 \<and> warningDays s = 0 \<and>
              riskLevel s = ''low'')"
proof -
  from assms obtain p rest where ps: "ps = p # rest" by (cases ps) auto
  have m: "fold min (map projected_inventory rest) (projected_inventory p) =
           Min (projected_inventory ` set ps)"
    by (simp add: fold_min_Min ps)
  have c: "card {i. i < length ps \<and> status (ps ! i) = st} = length (filter (\<lambda>p. status p = st) ps)"
    for st by (rule length_filter_conv_card [symmetric])
  have z: "length (filter (\<lambda>p. status p = st) ps) = 0"
    if "\<forall>p \<in> set ps. status p = Optimal" "st \<noteq> Optimal" for st
    using that by (auto simp: filter_empty_conv)
  define s where "s = the (getProjectionSummary ps)"
  have eq: "getProjectionSummary ps = Some s"
    unfolding s_def ps getProjectionSummary_Cons by simp
  have f: "stockoutDays s = length (filter (\<lambda>p. status p = Stockout) ps)"
       "criticalDays s = length (filter (\<lambda>p. status p = Critical) ps)"
       "warningDays s = length (filter (\<lambda>p. status p = Warning) ps)"
       "minInventory s = fold min (map projected_inventory rest) (projected_inventory p)"
       "totalDemand s = cumulative_demand (last ps)"
       "riskLevel s = (if length (filter (\<lambda>p. status p = Stockout) ps) > 0 then ''high''
                        else if length (filter (\<lambda>p. status p = Critical) ps) > 7
                             then ''medium'' else ''low'')"
    unfolding s_def ps getProjectionSummary_Cons option.sel ProjectionSummary.simps
    by (rule refl)+
  have opt: "stockoutDays s = 0 \<and> criticalDays s = 0 \<and> warningDays s = 0 \<and> riskLevel s = ''low''"
    if "\<forall>p \<in> set ps. status p = Optimal"
    unfolding f using z [OF that] by simp
  have risk: "riskLevel s = (if stockoutDays s > 0 then ''high''
                          else if criticalDays s > 7 then ''medium'' else ''low'')"
    unfolding f by (rule refl)
  show ?thesis
    using eq f(1,2,3,5) f(4) [unfolded m] risk opt unfolding c by blast
qed

theorem summary_nonempty_witness:
  "\<exists>s. getProjectionSummary [optimal_day 7 1, optimal_day 5 3] = Some s \<and>
        stockoutDays s = 0 \<and> criticalDays s = 0 \<and> warningDays s = 0 \<and>
        minInventory s = 5 \<and> totalDemand s = 3 \<and> riskLevel s = ''low''"
proof -
  let ?ps = "[optimal_day 7 1, optimal_day 5 3]"
  have ne: "?ps \<noteq> []" by simp
  have opt: "\<forall>p \<in> set ?ps. status p = Optimal"
    by (simp add: optimal_day_def)
  have mi: "Min (projected_inventory ` set ?ps) = 5"
    by (simp add: optimal_day_def)
  have td: "cumulative_demand (last ?ps) = 3"
    by (simp add: optimal_day_def)
  from summary_nonempty [OF ne] obtain s where
    s: "getProjectionSummary ?ps = Some s"
       "minInventory s = Min (projected_inventory ` set ?ps)"
       "totalDemand s = cumulative_demand (last ?ps)"
       "(\<forall>p \<in> set ?ps. status p = Optimal) \<longrightarrow>
              stockoutDays s = 0 \<and> criticalDays s = 0 \<and> warningDays s = 0 \<and>
              riskLevel s = ''low''"
    by (elim exE conjE)
  from s(4) opt have "stockoutDays s = 0 \<and> criticalDays s = 0 \<and> warningDays s = 0 \<and>
              riskLevel s = ''low''" by (rule mp)
  with s(1) s(2) [unfolded mi] s(3) [unfolded td] show ?thesis
    by (intro exI [of _ s]) (simp only: simp_thms)
qed

text \<open>
  Claim C10. On the empty projection \<open>getProjectionSummary\<close> returns no summary
  (\<open>None\<close>, the source's null); it returns a summary exactly for non-empty input.
\<close>

theorem summary_empty:
  "getProjectionSummary [] = None \<and>
   (\<forall>ps. (\<exists>s. getProjectionSummary ps = Some s) = (ps \<noteq> []))"
  by (simp add: getProjectionSummary_def Let_def split: list.splits)

theorem summary_empty_witness:
  "\<exists>s. getProjectionSummary [optimal_day 5 1] = Some s"
  using summary_empty by simp

section \<open>The example inputs evaluated\<close>

lemma getSeasonalAdjustment_march1:
  "getSeasonalAdjustment (addDays march1 0) = 1"
  "getSeasonalAdjustment (addDays march1 1) = 1"
  by code_simp+

lemma getDailyDemand_demand50:
  "getDailyDemand demand50 (addDays march1 0) = 50"
  "getDailyDemand demand50 (addDays march1 1) = 50"
  by code_simp+

lemma demand_through_demand50:
  "demand_through march1 demand50 0 = 50"
  "demand_through march1 demand50 1 = 100"
  by code_simp+

lemma calculateEnhancedSafetyStock_demand50:
  "calculateEnhancedSafetyStock demand50 = 10"
  by (simp add: calculateEnhancedSafetyStock_def demand50_def fc_def or_num_def Let_def)

lemma baseline_inventory_stock100: "baseline_inventory stock100 = 100"
  by (simp add: baseline_inventory_def stock100_def obs_def)

lemma seasonalFactors_range:
  assumes "seasonalFactors m = Some v"
  shows "0.9 \<le> v \<and> v \<le> 1.3"
proof -
  from assms have "(m, v) \<in> set [(1, 0.9), (2, 0.95), (3, 1.0), (4, 1.05), (5, 1.1), (6, 1.15),
      (7, 1.2), (8, 1.15), (9, 1.05), (10, 1.1), (11, 1.25), (12, 1.3::real)]"
    unfolding seasonalFactors_def by (rule map_of_SomeD)
  then have "v \<in> {0.9, 0.95, 1.0, 1.05, 1.1, 1.15, 1.2, 1.25, 1.3}"
    by auto
  then show ?thesis by auto
qed

lemma seasonalFactors_values:
  "seasonalFactors 3 = Some 1" "seasonalFactors 7 = Some 1.2" "seasonalFactors 12 = Some 1.3"
  by (simp_all add: seasonalFactors_def)

lemma example_days:
  "calculateInventoryTimeline march1 series0 stock100 demand50 1 ! 0 =
     day_entry march1 100 10 50 50 0"
  "calculateInventoryTimeline march1 series0 stock100 demand50 1 ! Suc 0 =
     day_entry march1 100 10 50 100 1"
  using nth_timeline [of 0 1 march1 series0 stock100 demand50]
    nth_timeline [of 1 1 march1 series0 stock100 demand50]
  by (simp_all add: calculateEnhancedSafetyStock_demand50 baseline_inventory_stock100
        demand_through_demand50 adjustedDemand_on_def getDailyDemand_demand50
        getSeasonalAdjustment_march1)

section \<open>Projected inventory and replenishment\<close>

text \<open>
  Claim C1. On every day \<open>d\<close> of the projection (\<open>0 \<le> d \<le> projectionDays\<close>), the value
  before replenishment is the baseline inventory (the sum of all observation values, null
  counting as 0) minus the cumulative adjusted demand through day \<open>d\<close>: a running total
  against the original baseline, not a carry of the previous day's value. Exactly when
  \<open>d > 0\<close> and this value is at most the reorder point, \<open>max 0 (2 * baseline - value)\<close>
  is added; on day 0 nothing is added. The emitted \<open>projected_inventory\<close> is the result
  floored at 0.
\<close>

theorem projected_inventory_rule:
  assumes "0 \<le> d" and "d \<le> projectionDays"
  shows "let p = calculateInventoryTimeline startDate series inventoryData forecasts projectionDays
                   ! nat d;
             baseline = baseline_inventory inventoryData;
             pre = baseline - demand_through startDate forecasts d;
             post = (if d > 0 \<and> pre \<le> reorder_point p then pre + max 0 (2 * baseline - pre)
                     else pre)
         in cumulative_demand p = demand_through startDate forecasts d \<and>
            current_stock p = baseline \<and>
            projected_inventory p = max 0 post \<and>
            (d = 0 \<longrightarrow> post = pre)"
  by (simp add: nth_timeline [OF assms] day_entry_def replenished_def Let_def)

theorem projected_inventory_rule_witness:
  "cumulative_demand (calculateInventoryTimeline march1 series0 stock100 demand50 1 ! 1) = 100 \<and>
   current_stock (calculateInventoryTimeline march1 series0 stock100 demand50 1 ! 1) = 100 \<and>
   projected_inventory (calculateInventoryTimeline march1 series0 stock100 demand50 1 ! 1) = 200"
proof -
  have "(0::int) \<le> 1" "(1::int) \<le> 1" by simp_all
  from projected_inventory_rule [OF this, of march1 series0 stock100 demand50]
  have "cumulative_demand (calculateInventoryTimeline march1 series0 stock100 demand50 1 ! 1) = 100 \<and>
   current_stock (calculateInventoryTimeline march1 series0 stock100 demand50 1 ! 1) = 100 \<and>
   projected_inventory (calculateInventoryTimeline march1 series0 stock100 demand50 1 ! 1) =
     max 0 (if 0 \<le> reorder_point (calculateInventoryTimeline march1 series0 stock100 demand50 1 ! 1)
            then 200 else 0)"
    by (simp add: Let_def baseline_inventory_stock100 demand_through_demand50)
  moreover have "reorder_point (calculateInventoryTimeline march1 series0 stock100 demand50 1 ! 1) = 15"
    by (simp add: example_days day_entry_def Let_def)
  ultimately show ?thesis by simp
qed

section \<open>Status of a day\<close>

text \<open>
  Claim C4. The status of every emitted day is computed from the value after replenishment,
  before it is floored at 0 for display: stockout when it is at most 0, else critical when it
  is at most half the safety stock, else warning when it is at most the safety stock, else
  optimal. With a safety stock of 100, the values 0, 50, 100 and 101 give stockout, critical,
  warning and optimal.
\<close>

theorem status_rule:
  assumes "0 \<le> d" and "d \<le> projectionDays"
  shows "let p = calculateInventoryTimeline startDate series inventoryData forecasts projectionDays
                   ! nat d;
             v = replenished (current_stock p) (reorder_point p) d
                   (current_stock p - cumulative_demand p)
         in status p = (if v \<le> 0 then Stockout
                        else if v \<le> safety_stock p * 0.5 then Critical
                        else if v \<le> safety_stock p then Warning
                        else Optimal) \<and>
            projected_inventory p = max 0 v \<and>
            determineEnhancedInventoryStatus 0 100 rp = Stockout \<and>
            determineEnhancedInventoryStatus 50 100 rp = Critical \<and>
            determineEnhancedInventoryStatus 100 100 rp = Warning \<and>
            determineEnhancedInventoryStatus 101 100 rp = Optimal"
  by (simp add: nth_timeline [OF assms] day_entry_def Let_def
        determineEnhancedInventoryStatus_def)

theorem status_rule_witness:
  "status (calculateInventoryTimeline march1 series0 stock100 demand50 1 ! 0) = Optimal \<and>
   projected_inventory (calculateInventoryTimeline march1 series0 stock100 demand50 1 ! 0) = 50"
proof -
  have "(0::int) \<le> 0" "(0::int) \<le> 1" by simp_all
  from status_rule [OF this, of march1 series0 stock100 demand50]
  show ?thesis
    by (simp add: Let_def example_days day_entry_def replenished_def)
qed

section \<open>Cumulative demand\<close>

lemma or_num_nonneg:
  assumes "\<And>v. x = Some v \<Longrightarrow> 0 \<le> v"
  shows "0 \<le> or_num x 0"
  using assms by (cases x) (simp_all add: or_num_def)

lemma foldl_closer_mem: "foldl (closer t) x xs \<in> set (x # xs)"
proof (induction xs arbitrary: x)
  case Nil
  show ?case by simp
next
  case (Cons y ys)
  have "closer t x y = x \<or> closer t x y = y" by (simp add: closer_def Let_def)
  with Cons.IH [of "closer t x y"] show ?case by auto
qed

lemma getDailyDemand_nonneg:
  assumes nn: "\<forall>f \<in> set forecasts. \<forall>v. forecast f = Some v \<longrightarrow> 0 \<le> v"
  shows "0 \<le> getDailyDemand forecasts t"
proof -
  have el: "0 \<le> or_num (forecast f) 0" if "f \<in> set forecasts" for f
    using nn that by (intro or_num_nonneg) blast
  let ?sorted = "sort_key (\<lambda>f. parseDate (postdate f)) (filter (\<lambda>f. forecast f \<noteq> None) forecasts)"
  have near: "0 \<le> (case ?sorted of [] \<Rightarrow> 0
                     | first # rest \<Rightarrow> or_num (forecast (foldl (closer t) first rest)) 0)"
  proof (cases ?sorted)
    case Nil
    then show ?thesis by simp
  next
    case (Cons first rest)
    have "foldl (closer t) first rest \<in> set ?sorted"
      unfolding Cons by (rule foldl_closer_mem)
    then have "foldl (closer t) first rest \<in> set forecasts" by simp
    then have "0 \<le> or_num (forecast (foldl (closer t) first rest)) 0" by (rule el)
    then show ?thesis by (simp only: Cons list.case)
  qed
  have exact: "0 \<le> the (forecast m)"
    if "find P forecasts = Some m" "truthy (forecast m)" for P m
  proof -
    from that(1) have "m \<in> set forecasts" by (auto simp: find_Some_iff)
    moreover from that(2) obtain v where "forecast m = Some v"
      by (auto simp: truthy_def split: option.splits)
    ultimately show ?thesis using nn by auto
  qed
  show ?thesis
    unfolding getDailyDemand_def Let_def
    using near exact by (auto split: option.splits)
qed

lemma getSeasonalAdjustment_pos: "0 < getSeasonalAdjustment t"
proof -
  have "0 < or_num (seasonalFactors m) 1" for m
  proof (cases "seasonalFactors m")
    case None
    then show ?thesis by (simp add: or_num_def)
  next
    case (Some v)
    with seasonalFactors_range [OF Some] show ?thesis by (simp add: or_num_def)
  qed
  then show ?thesis by (simp add: getSeasonalAdjustment_def Let_def)
qed

lemma demand_through_mono:
  assumes nn: "\<forall>f \<in> set forecasts. \<forall>v. forecast f = Some v \<longrightarrow> 0 \<le> v"
    and "0 \<le> i" "i \<le> j"
  shows "demand_through startDate forecasts i \<le> demand_through startDate forecasts j"
proof -
  have adj: "0 \<le> adjustedDemand_on startDate forecasts d" for d
    unfolding adjustedDemand_on_def
    using getDailyDemand_nonneg [OF nn] getSeasonalAdjustment_pos
    by (simp add: less_imp_le)
  have "[0..j] = [0..i] @ [i + 1..j]"
    using assms(2,3) by (rule upto_split2)
  then have "demand_through startDate forecasts j =
             demand_through startDate forecasts i +
             sum_list (map (adjustedDemand_on startDate forecasts) [i + 1..j])"
    by (simp add: demand_through_def)
  moreover have "0 \<le> sum_list (map (adjustedDemand_on startDate forecasts) [i + 1..j])"
    by (rule sum_list_nonneg) (auto simp: adj)
  ultimately show ?thesis by simp
qed

lemma cumulative_demand_timeline:
  "map cumulative_demand
     (calculateInventoryTimeline startDate series inventoryData forecasts projectionDays) =
   map (demand_through startDate forecasts) [0..projectionDays]"
  by (simp add: calculateInventoryTimeline_closed day_entry_def Let_def)

text \<open>
  Claim C8, as amended. When no forecast value is negative, the \<open>cumulative_demand\<close>
  values of a projection are non-decreasing from day 0 to the last day. The code does not
  restrict the forecast values, and a negative one makes the running total fall.
\<close>

theorem cumulative_demand_sorted:
  assumes "\<forall>f \<in> set forecasts. \<forall>v. forecast f = Some v \<longrightarrow> 0 \<le> v"
  shows "sorted (map cumulative_demand
           (calculateInventoryTimeline startDate series inventoryData forecasts projectionDays))"
proof -
  have "sorted_wrt (\<lambda>i j. demand_through startDate forecasts i \<le>
                            demand_through startDate forecasts j) [0..projectionDays]"
  proof (rule sorted_wrt_mono_rel)
    show "sorted_wrt (\<le>) [0..projectionDays]" by simp
  next
    fix i j
    assume "i \<in> set [0..projectionDays]" "j \<in> set [0..projectionDays]" "i \<le> j"
    then show "demand_through startDate forecasts i \<le> demand_through startDate forecasts j"
      using demand_through_mono [OF assms] by simp
  qed
  then show ?thesis
    by (simp only: cumulative_demand_timeline sorted_map)
qed

theorem cumulative_demand_sorted_witness:
  "sorted (map cumulative_demand (calculateInventoryTimeline march1 series0 stock100 demand50 1))"
proof -
  have "\<forall>f \<in> set demand50. \<forall>v. forecast f = Some v \<longrightarrow> 0 \<le> v"
    by (simp add: demand50_def fc_def)
  then show ?thesis by (rule cumulative_demand_sorted)
qed

text \<open>
  The claim as stated, for every projection, fails: with the single forecast value \<open>-5\<close>
  the cumulative demand is \<open>-4.5\<close> on day 0 and \<open>-9\<close> on day 1.
\<close>

theorem cumulative_demand_decreases:
  "\<not> sorted (map cumulative_demand
               (calculateInventoryTimeline 0 series0 stock100 negative_forecast 1))"
proof -
  have "demand_through 0 negative_forecast 0 = - 4.5"
       "demand_through 0 negative_forecast 1 = - 9"
    by code_simp+
  then show ?thesis
    by (simp add: cumulative_demand_timeline upto.simps)
qed

section \<open>Safety stock\<close>

lemma calculateEnhancedSafetyStock_stddev:
  assumes "forecasts \<noteq> []"
  shows "calculateEnhancedSafetyStock forecasts =
         max 10 (1.65 * population_stddev (forecast_values forecasts) * sqrt (14 / 7))"
proof -
  have d: "map (\<lambda>f. or_num (forecast f) 0) forecasts = forecast_values forecasts"
    by (simp add: forecast_values_def or_num_zero)
  have s1: "foldl (\<lambda>sum d. sum + d) 0 xs = sum_list xs" for xs :: "real list"
    using foldl_add_sum_list [of "\<lambda>x. x" 0 xs] by simp
  have s2: "foldl (\<lambda>sum d. sum + (d - a) ^ 2) 0 xs = sum_list (map (\<lambda>x. (x - a) ^ 2) xs)"
    for xs :: "real list" and a
    using foldl_add_sum_list [of "\<lambda>x. (x - a) ^ 2" 0 xs] by simp
  show ?thesis
    using assms
    by (simp add: calculateEnhancedSafetyStock_def Let_def d s1 s2 population_stddev_def
          sample_mean_def max.commute)
qed

lemma forecast_demand_no_forecasts:
  "p \<in> set (calculateInventoryTimeline startDate series inventoryData [] projectionDays) \<Longrightarrow>
   forecast_demand p = 0"
  by (auto simp: calculateInventoryTimeline_closed day_entry_def Let_def adjustedDemand_on_def
        getDailyDemand_Nil)

lemma safety_stock_timeline:
  "p \<in> set (calculateInventoryTimeline startDate series inventoryData forecasts projectionDays) \<Longrightarrow>
   safety_stock p = calculateEnhancedSafetyStock forecasts"
  by (auto simp: calculateInventoryTimeline_closed day_entry_def Let_def)

lemma population_stddev_10_30:
  "population_stddev (forecast_values demand_10_30) = sqrt 250"
proof -
  have "forecast_values demand_10_30 = [10, 0, 30, 40]"
    by (simp add: forecast_values_def demand_10_30_def fc_def)
  then show ?thesis
    by (simp add: population_stddev_def sample_mean_def)
qed

text \<open>
  Claim C3. The safety stock of every day of a projection is
  \<open>max 10 (1.65 * stdDev * sqrt (14 / 7))\<close>, where \<open>stdDev\<close> is the population standard
  deviation of the forecast values with null forecasts counting as 0; with an empty
  forecast sequence it is exactly 10, and then the \<open>forecast_demand\<close> of every day is 0.
\<close>

theorem safety_stock_rule:
  "(\<forall>p \<in> set (calculateInventoryTimeline startDate series inventoryData forecasts projectionDays).
      safety_stock p =
        (if forecasts = [] then 10
         else max 10 (1.65 * population_stddev (forecast_values forecasts) * sqrt (14 / 7))) \<and>
      (forecasts = [] \<longrightarrow> forecast_demand p = 0)) \<and>
   calculateEnhancedSafetyStock [] = 10"
  using calculateEnhancedSafetyStock_stddev [of forecasts]
  by (auto simp: safety_stock_timeline forecast_demand_no_forecasts
        calculateEnhancedSafetyStock_Nil)

theorem safety_stock_rule_witness:
  "safety_stock (calculateInventoryTimeline march1 series0 stock100 demand_10_30 1 ! 0) =
     1.65 * sqrt 250 * sqrt 2 \<and>
   safety_stock (calculateInventoryTimeline march1 series0 stock100 [] 1 ! 0) = 10 \<and>
   forecast_demand (calculateInventoryTimeline march1 series0 stock100 [] 1 ! 0) = 0"
proof -
  have mem: "calculateInventoryTimeline march1 series0 stock100 fs 1 ! 0 \<in>
             set (calculateInventoryTimeline march1 series0 stock100 fs 1)" for fs
    by (rule nth_mem) (simp add: length_timeline)
  have ne: "demand_10_30 \<noteq> []" by (simp add: demand_10_30_def)
  have "15 \<le> sqrt 250" by (rule real_le_rsqrt) simp
  moreover have "1 \<le> sqrt 2" by simp
  ultimately have "15 * 1 \<le> sqrt 250 * sqrt 2"
    by (intro mult_mono) simp_all
  then have big: "max 10 (1.65 * sqrt 250 * sqrt 2) = 1.65 * sqrt 250 * sqrt 2"
    by (simp add: max_def)
  from safety_stock_rule [of march1 series0 stock100 demand_10_30 1] mem [of demand_10_30]
  have "safety_stock (calculateInventoryTimeline march1 series0 stock100 demand_10_30 1 ! 0) =
          max 10 (1.65 * population_stddev (forecast_values demand_10_30) * sqrt (14 / 7))"
    using ne by auto
  then have a: "safety_stock (calculateInventoryTimeline march1 series0 stock100 demand_10_30 1 ! 0) =
          1.65 * sqrt 250 * sqrt 2"
    using big by (simp add: population_stddev_10_30)
  from safety_stock_rule [of march1 series0 stock100 "[]" 1] mem [of "[]"]
  have b: "safety_stock (calculateInventoryTimeline march1 series0 stock100 [] 1 ! 0) = 10 \<and>
        forecast_demand (calculateInventoryTimeline march1 series0 stock100 [] 1 ! 0) = 0"
    by auto
  from a b show ?thesis by simp
qed

section \<open>Requests without data\<close>

lemma calculateProjections_no_series:
  assumes "error seriesQuery = None" "data seriesQuery = None \<or> data seriesQuery = Some []"
  shows "calculateProjections startDate seriesQuery inventoryDataQuery forecastQuery params = Inr []"
  using assms by (auto simp: calculateProjections_def)

lemma calculateProjections_ok:
  assumes "error seriesQuery = None" "error inventoryDataQuery = None"
    "error forecastQuery = None" "data seriesQuery = Some inventorySeries"
  shows "\<exists>rs. calculateProjections startDate seriesQuery inventoryDataQuery forecastQuery params =
                Inr rs \<and>
              length rs = length inventorySeries \<and>
              (\<forall>r \<in> set rs. length (r_projections r) = nat (horizon_of params + 1))"
proof (cases "inventorySeries = []")
  case True
  with assms show ?thesis by (simp add: calculateProjections_def)
next
  case False
  with assms show ?thesis
    by (auto simp: calculateProjections_def Let_def length_timeline horizon_of_def
          split: option.splits)
qed

lemma current_stock_no_observations:
  "p \<in> set (calculateInventoryTimeline startDate series [] forecasts projectionDays) \<Longrightarrow>
   current_stock p = 0"
  by (auto simp: calculateInventoryTimeline_closed day_entry_def Let_def baseline_inventory_def)

text \<open>
  Claim C5, as amended. When the series query returns no rows, \<open>calculateProjections\<close>
  returns the empty list. A series without observations is not skipped: it is projected
  from a baseline of 0 and, for a horizon \<open>projectionDays \<ge> 0\<close>, yields
  \<open>projectionDays + 1\<close> days. Missing forecast data never empties the output and never
  raises an error: without forecasts the projection still has \<open>projectionDays + 1\<close> days,
  and when no query reports an error the result has one entry for each series.
\<close>

theorem empty_series_rule:
  "(error seriesQuery = None \<and> (data seriesQuery = None \<or> data seriesQuery = Some []) \<longrightarrow>
      calculateProjections startDate seriesQuery inventoryDataQuery forecastQuery params = Inr []) \<and>
   (0 \<le> projectionDays \<longrightarrow>
      length (calculateInventoryTimeline startDate series [] forecasts projectionDays) =
        nat projectionDays + 1 \<and>
      (\<forall>p \<in> set (calculateInventoryTimeline startDate series [] forecasts projectionDays).
         current_stock p = 0) \<and>
      length (calculateInventoryTimeline startDate series inventoryData [] projectionDays) =
        nat projectionDays + 1) \<and>
   (error seriesQuery = None \<and> error inventoryDataQuery = None \<and> error forecastQuery = None \<and>
    data seriesQuery = Some inventorySeries \<longrightarrow>
      (\<exists>rs. calculateProjections startDate seriesQuery inventoryDataQuery forecastQuery params =
              Inr rs \<and>
            length rs = length inventorySeries \<and>
            (\<forall>r \<in> set rs. length (r_projections r) = nat (horizon_of params + 1))))"
  using calculateProjections_no_series [of seriesQuery startDate inventoryDataQuery forecastQuery params]
    calculateProjections_ok [of seriesQuery inventoryDataQuery forecastQuery inventorySeries
      startDate params]
  by (auto simp: length_timeline current_stock_no_observations nat_add_distrib)

theorem empty_series_rule_witness:
  "calculateProjections march1 no_rows no_rows no_rows one_day = Inr [] \<and>
   length (calculateInventoryTimeline march1 series0 [] demand50 1) = 2 \<and>
   current_stock (calculateInventoryTimeline march1 series0 [] demand50 1 ! 0) = 0 \<and>
   length (calculateInventoryTimeline march1 series0 stock100 [] 1) = 2 \<and>
   (\<exists>rs. calculateProjections march1 one_series no_rows no_rows one_day = Inr rs \<and>
         length rs = 1 \<and> length (r_projections (rs ! 0)) = 2)"
proof -
  have mem: "calculateInventoryTimeline march1 series0 [] demand50 1 ! 0 \<in>
             set (calculateInventoryTimeline march1 series0 [] demand50 1)"
    by (rule nth_mem) (simp add: length_timeline)
  have a: "calculateProjections march1 no_rows no_rows no_rows one_day = Inr []"
    using empty_series_rule [where seriesQuery = no_rows and startDate = march1
        and inventoryDataQuery = no_rows and forecastQuery = no_rows and params = one_day]
    by (simp add: no_rows_def)
  have b: "length (calculateInventoryTimeline march1 series0 [] demand50 1) = 2 \<and>
   current_stock (calculateInventoryTimeline march1 series0 [] demand50 1 ! 0) = 0 \<and>
   length (calculateInventoryTimeline march1 series0 stock100 [] 1) = 2"
    using empty_series_rule [where projectionDays = 1 and startDate = march1
        and series = series0 and forecasts = demand50 and inventoryData = stock100] mem
    by simp
  have h: "error one_series = None \<and>
           error (no_rows :: InventoryDatum query_result) = None \<and>
           error (no_rows :: ForecastData query_result) = None \<and>
           data one_series = Some [series0]"
    by (simp add: one_series_def no_rows_def)
  have "\<exists>rs. calculateProjections march1 one_series no_rows no_rows one_day = Inr rs \<and>
          length rs = length [series0] \<and>
          (\<forall>r \<in> set rs. length (r_projections r) = nat (horizon_of one_day + 1))"
    by (rule mp [OF conjunct2 [OF conjunct2 [OF empty_series_rule
         [where seriesQuery = one_series and startDate = march1
            and inventoryDataQuery = no_rows and forecastQuery = no_rows and params = one_day
            and inventorySeries = "[series0]" and projectionDays = 1 and series = series0
            and forecasts = demand50 and inventoryData = stock100]]] h])
  then obtain rs where rs: "calculateProjections march1 one_series no_rows no_rows one_day = Inr rs"
      "length rs = length [series0]"
      "\<forall>r \<in> set rs. length (r_projections r) = nat (horizon_of one_day + 1)"
    by (elim exE conjE)
  from rs(2) have "rs ! 0 \<in> set rs" by simp
  with rs(3) have "length (r_projections (rs ! 0)) = 2"
    by (simp add: horizon_of_def one_day_def)
  with rs(1,2) have c: "\<exists>rs. calculateProjections march1 one_series no_rows no_rows one_day = Inr rs \<and>
         length rs = 1 \<and> length (r_projections (rs ! 0)) = 2"
    by simp
  from a b c show ?thesis by simp
qed

text \<open>
  The claim as stated fails: for a series that exists and has no observations, with a
  horizon of one day, the output is not empty; it has two days with \<open>current_stock = 0\<close>.
\<close>

theorem no_observations_not_empty:
  "calculateProjections march1 one_series no_rows no_rows one_day =
     Inr [\<lparr>r_product_id = ''p1'', r_location_id = ''l1'', r_warehouse_id = 1,
           r_projections = calculateInventoryTimeline march1 series0 [] [] 1\<rparr>] \<and>
   length (calculateInventoryTimeline march1 series0 [] [] 1) = 2 \<and>
   map current_stock (calculateInventoryTimeline march1 series0 [] [] 1) = [0, 0]"
  by (simp add: calculateProjections_def one_series_def no_rows_def one_day_def series0_def
        Let_def length_timeline calculateInventoryTimeline_closed day_entry_def
        baseline_inventory_def upto.simps)

section \<open>Daily demand\<close>

lemma find_append_list:
  "find P (xs @ ys) = (case find P xs of None \<Rightarrow> find P ys | Some x \<Rightarrow> Some x)"
  by (induction xs) simp_all

lemma find_SomeD: "find P xs = Some r \<Longrightarrow> P r \<and> r \<in> set xs"
  by (induction xs) (auto split: if_splits)

lemma insort_key_equiv:
  assumes "\<And>a b. (f a \<le> f b) = (g a \<le> g b)"
  shows "insort_key f x xs = insort_key g x xs"
  by (induction xs) (simp_all add: assms)

lemma sort_key_equiv:
  assumes "\<And>a b. (f a \<le> f b) = (g a \<le> g b)"
  shows "sort_key f xs = sort_key g xs"
  by (induction xs) (simp_all add: insort_key_equiv [OF assms])

lemma sort_key_parseDate:
  "sort_key (\<lambda>f. parseDate (postdate f)) xs = sort_key postdate xs"
  by (rule sort_key_equiv) (simp add: parseDate_def msPerDay_def)

lemma closer_time_distance:
  "closer t prev cur = (if time_distance t cur < time_distance t prev then cur else prev)"
  by (simp add: closer_def time_distance_def Let_def)

lemma foldl_closer_first_closest:
  "first_closest t (x # xs) = Some (foldl (closer t) x xs)"
proof (induction xs rule: rev_induct)
  case Nil
  show ?case by (simp add: first_closest_def)
next
  case (snoc y ys)
  let ?d = "time_distance t"
  let ?r = "foldl (closer t) x ys"
  let ?P = "\<lambda>zs f. \<forall>g \<in> set zs. ?d f \<le> ?d g"
  from snoc.IH have fr: "find (?P (x # ys)) (x # ys) = Some ?r"
    by (simp only: first_closest_def)
  from find_SomeD [OF fr] have rmin: "?P (x # ys) ?r" and rmem: "?r \<in> set (x # ys)"
    by blast+
  have app: "x # ys @ [y] = (x # ys) @ [y]" by simp
  show ?case
  proof (cases "?d y < ?d ?r")
    case True
    have "\<not> ?P (x # ys @ [y]) z" if "z \<in> set (x # ys)" for z
    proof -
      from rmin that have "?d ?r \<le> ?d z" by blast
      with True have "?d y < ?d z" by simp
      then show ?thesis by auto
    qed
    then have "find (?P (x # ys @ [y])) (x # ys) = None"
      by (simp only: find_None_iff) blast
    moreover have "?P (x # ys @ [y]) y"
    proof
      fix g assume "g \<in> set (x # ys @ [y])"
      then have "g = y \<or> g \<in> set (x # ys)" by auto
      then show "?d y \<le> ?d g"
      proof
        assume "g = y" then show ?thesis by simp
      next
        assume "g \<in> set (x # ys)"
        with rmin have "?d ?r \<le> ?d g" by blast
        with True show ?thesis by simp
      qed
    qed
    ultimately have "find (?P (x # ys @ [y])) ((x # ys) @ [y]) = Some y"
      by (simp only: find_append_list) simp
    moreover have "foldl (closer t) x (ys @ [y]) = y"
      using True by (simp only: foldl_append foldl.simps closer_time_distance if_True)
    ultimately show ?thesis
      by (simp only: first_closest_def app)
  next
    case False
    have "?P (x # ys @ [y]) z = ?P (x # ys) z" if "z \<in> set (x # ys)" for z
    proof
      assume "?P (x # ys @ [y]) z"
      then show "?P (x # ys) z" by auto
    next
      assume z: "?P (x # ys) z"
      with rmem have "?d z \<le> ?d ?r" by blast
      with False have "?d z \<le> ?d y" by simp
      with z show "?P (x # ys @ [y]) z" by auto
    qed
    then have "find (?P (x # ys @ [y])) (x # ys) = find (?P (x # ys)) (x # ys)"
      by (intro find_cong) simp_all
    with fr have "find (?P (x # ys @ [y])) ((x # ys) @ [y]) = Some ?r"
      by (simp only: find_append_list) simp
    moreover have "foldl (closer t) x (ys @ [y]) = ?r"
      using False by (simp only: foldl_append foldl.simps closer_time_distance if_False)
    ultimately show ?thesis
      by (simp only: first_closest_def app)
  qed
qed

lemma nearest_branch:
  "(case sort_key (\<lambda>f. parseDate (postdate f)) (filter (\<lambda>f. forecast f \<noteq> None) forecasts) of
      [] \<Rightarrow> 0
    | first # rest \<Rightarrow> or_num (forecast (foldl (closer t) first rest)) 0) =
   nearest_demand forecasts t"
proof (cases "sort_key postdate (filter (\<lambda>f. forecast f \<noteq> None) forecasts)")
  case Nil
  then show ?thesis
    by (simp only: nearest_demand_def sort_key_parseDate first_closest_def) simp
next
  case (Cons first rest)
  show ?thesis
    by (simp only: nearest_demand_def sort_key_parseDate Cons list.case
          foldl_closer_first_closest option.case or_num_zero)
qed

lemma getDailyDemand_base_demand:
  assumes "\<forall>m. find (\<lambda>f. postdate f = toISODate t) forecasts = Some m \<longrightarrow> forecast m \<noteq> Some 0"
  shows "getDailyDemand forecasts t = base_demand forecasts t"
proof (cases "forecasts = []")
  case True
  then show ?thesis
    by (simp add: getDailyDemand_def base_demand_def nearest_demand_def first_closest_def)
next
  case False
  show ?thesis
  proof (cases "find (\<lambda>f. postdate f = toISODate t) forecasts")
    case None
    with False show ?thesis
      by (simp only: getDailyDemand_def base_demand_def Let_def nearest_branch) simp
  next
    case (Some m)
    show ?thesis
    proof (cases "forecast m")
      case None
      with False Some show ?thesis
        by (simp only: getDailyDemand_def base_demand_def Let_def nearest_branch)
           (simp add: truthy_def)
    next
      case (Some v)
      with assms \<open>find _ forecasts = Some m\<close> have "v \<noteq> 0" by auto
      with False Some \<open>find _ forecasts = Some m\<close> show ?thesis
        by (simp only: getDailyDemand_def base_demand_def Let_def nearest_branch)
           (simp add: truthy_def or_num_def)
    qed
  qed
qed

lemma getSeasonalAdjustment_factor:
  "getSeasonalAdjustment t = seasonal_factor (civil_month (toISODate t))"
proof -
  have "or_num (seasonalFactors m) 1 = seasonal_factor m" for m
  proof (cases "seasonalFactors m")
    case None
    then show ?thesis by (simp add: or_num_def seasonal_factor_def)
  next
    case (Some v)
    with seasonalFactors_range [OF Some] show ?thesis
      by (simp add: or_num_def seasonal_factor_def)
  qed
  then show ?thesis
    by (simp add: getSeasonalAdjustment_def getMonth_def Let_def)
qed


lemma seasonal_factor_range: "0.9 \<le> seasonal_factor m \<and> seasonal_factor m \<le> 1.3"
proof (cases "seasonalFactors m")
  case None
  then show ?thesis by (simp add: seasonal_factor_def)
next
  case (Some v)
  with seasonalFactors_range [OF Some] show ?thesis by (simp add: seasonal_factor_def)
qed

lemma demand_10_30_day1:
  "toISODate (addDays march1 1) = 60"
  "base_demand demand_10_30 (addDays march1 1) = 10"
  "seasonal_factor (civil_month 60) = 1"
  by code_simp+

lemma null_day_day0:
  "adjustedDemand_on march1 null_day 0 = 5"
  "claimed_base_demand null_day (addDays march1 0) = 0"
  by code_simp+

text \<open>
  Claim C2, as amended. On every day of the projection whose date is not that of a point
  with forecast 0 coming first among the points of that date, the emitted
  \<open>forecast_demand\<close> is the base demand times the seasonal factor of the day's month.
  The base demand is the forecast of the first point dated on that day when this forecast is
  not null; otherwise it is the forecast of the point nearest in time among the points with
  a non-null forecast, the earlier date winning a tie (the input order among points of one
  date); it is 0 when no point has a forecast, in particular for the empty sequence. The
  seasonal factors lie between 0.9 and 1.3, with 1.0 for March, 1.2 for July and 1.3 for
  December.
\<close>

theorem forecast_demand_rule:
  assumes "0 \<le> d" and "d \<le> projectionDays"
    and "\<forall>m. find (\<lambda>f. postdate f = toISODate (addDays startDate d)) forecasts = Some m \<longrightarrow>
             forecast m \<noteq> Some 0"
  shows "forecast_demand
           (calculateInventoryTimeline startDate series inventoryData forecasts projectionDays
              ! nat d) =
         base_demand forecasts (addDays startDate d) *
           seasonal_factor (civil_month (toISODate (addDays startDate d))) \<and>
         date (calculateInventoryTimeline startDate series inventoryData forecasts projectionDays
                 ! nat d) = toISODate (addDays startDate d) \<and>
         seasonal_factor 3 = 1 \<and> seasonal_factor 7 = 1.2 \<and> seasonal_factor 12 = 1.3 \<and>
         (\<forall>m. 0.9 \<le> seasonal_factor m \<and> seasonal_factor m \<le> 1.3)"
proof -
  have "seasonal_factor 3 = 1" "seasonal_factor 7 = 1.2" "seasonal_factor 12 = 1.3"
    by (simp_all add: seasonal_factor_def seasonalFactors_values)
  moreover have "\<forall>m. 0.9 \<le> seasonal_factor m \<and> seasonal_factor m \<le> 1.3"
    using seasonal_factor_range by blast
  ultimately show ?thesis
    by (simp add: nth_timeline [OF assms(1,2)] day_entry_def Let_def adjustedDemand_on_def
          getDailyDemand_base_demand [OF assms(3)] getSeasonalAdjustment_factor)
qed

theorem forecast_demand_rule_witness:
  "forecast_demand (calculateInventoryTimeline march1 series0 stock100 demand_10_30 1 ! 1) = 10"
proof -
  have "\<forall>m. find (\<lambda>f. postdate f = toISODate (addDays march1 1)) demand_10_30 = Some m \<longrightarrow>
            forecast m \<noteq> Some 0"
    by (simp add: demand_10_30_day1 demand_10_30_def fc_def)
  from forecast_demand_rule [of 1 1 march1 demand_10_30 series0 stock100, OF _ _ this]
  show ?thesis by (simp add: demand_10_30_day1)
qed

text \<open>
  The claim as stated fails where the point that matches the date has no forecast value:
  on 1970-03-01, with a point for that date without value and a point for the next day with
  forecast 5, the emitted demand is 5, not the (null, hence 0) value of the matching point.
\<close>

theorem exact_match_without_value:
  "forecast_demand (calculateInventoryTimeline march1 series0 stock100 null_day 0 ! 0) = 5 \<and>
   claimed_base_demand null_day (addDays march1 0) *
     seasonal_factor (civil_month (toISODate (addDays march1 0))) = 0"
  using nth_timeline [of 0 0 march1 series0 stock100 null_day]
  by (simp add: day_entry_def Let_def null_day_day0)

text \<open>
  Where the point that matches the date has the forecast 0, the test
  \<^verbatim>\<open>exactMatch && exactMatch.forecast\<close> fails and the search for the nearest point runs: at
  18:00 UTC the point of the next day is nearer than midnight of the same day, and its
  forecast is returned.
\<close>

lemma getDailyDemand_zero_day:
  "toISODate march1_evening = 59"
  "find (\<lambda>f. postdate f = toISODate march1_evening) zero_day = Some (fc 59 (Some 0))"
  "getDailyDemand zero_day march1_evening = 5"
  by code_simp+

end
